theory Spec2Isabelle
  imports Complex_Main
begin

section \<open>The node facade of pyswmm (pyswmm/nodes.py)\<close>

text \<open>
  The module wraps an external simulation engine. The classes \<open>Nodes\<close>, \<open>Node\<close>,
  \<open>Opening\<close>, \<open>Outfall\<close> and \<open>Storage\<close> are translated from nodes.py. The engine
  object behind \<open>self._model\<close> (pyswmm.swmm5) and the enumerations of
  pyswmm.toolkitapi are not part of nodes.py; they are modelled from the
  specification and marked as such.

  Python exceptions are values of \<open>error\<close>; a function that can raise returns
  \<open>error + 'a\<close> with \<open>Inl\<close> for the exception. Python floats are only stored and
  handed back by this layer, never computed with, and are modelled as \<open>real\<close>.
  Counts and cursors are Python ints that start at zero and only grow; they are \<open>nat\<close>.
\<close>

subsection \<open>Exceptions and enumerations\<close>

text \<open>
  \<open>PYSWMMException\<close> carries the message nodes.py raises it with, \<open>StopIteration\<close>
  ends an iteration, \<open>AttributeError\<close> is what Python raises for a name an object's
  class does not define. \<open>EngineFault\<close> stands for whatever the engine does when it is
  asked about an identifier or an index it does not hold; nodes.py never raises it.
\<close>

datatype error =
    PYSWMMException string
  | StopIteration
  | AttributeError string
  | EngineFault

text \<open>
  Modelled from the spec: the enumerations of pyswmm.toolkitapi (\<open>ObjectType\<close>,
  \<open>NodeType\<close>, \<open>NodeParams\<close>, \<open>NodeResults\<close>), which nodes.py imports and uses
  through \<open>.value\<close>. The spec calls them fixed, closed sets of keys; the members are
  the ones nodes.py names. The model compares members, where nodes.py compares
  their integer values.
\<close>

datatype ObjectType = GAGE | SUBCATCH | NODE | LINK

datatype NodeType = junction | outfall | storage | divider

datatype NodeParams =
    invertElev | fullDepth | surDepth | pondedArea
  | initDepth | surfaceArea | couplingArea | overlandDepth

datatype NodeResults =
    totalinflow | outflow | losses | newVolume | overflow
  | newDepth | newHead | newLatFlow | overlandInflow

datatype warning = SimulationNotRunning

subsection \<open>The engine\<close>

record opening_entry =
  o_type :: nat
  o_area :: real
  o_length :: real
  o_coeff_orifice :: real
  o_coeff_freeweir :: real
  o_coeff_subweir :: real

text \<open>
  Modelled from the spec: the state of the engine object (pyswmm.swmm5), which is not
  in nodes.py. \<open>object_ids t\<close> is the identifier table of object type \<open>t\<close> in the
  engine's index order; \<open>running\<close> says whether a simulation run is active. The
  spec requires a loaded engine for every call and gives no result otherwise: the
  calls below do not look at \<open>fileLoaded\<close>, only nodes.py does.
\<close>

record engine =
  fileLoaded :: bool
  running :: bool
  object_ids :: "ObjectType \<Rightarrow> string list"
  node_kind :: "string \<Rightarrow> NodeType"
  node_params :: "string \<Rightarrow> NodeParams \<Rightarrow> real"
  node_results :: "string \<Rightarrow> NodeResults \<Rightarrow> real"
  outfall_stages :: "string \<Rightarrow> real option"
  opening_table :: "string \<times> nat \<Rightarrow> opening_entry option"

text \<open>
  Engine objects are shared: a collection and every view built from it hold a
  reference to the same engine. The store maps a reference to the engine's current
  state; a view keeps the reference, never a copy of the state.
\<close>

type_synonym handle = nat

type_synonym store = "handle \<Rightarrow> engine"

text \<open>Modelled from the spec: \<open>object_count(object_type)\<close> of the engine interface.\<close>

definition getProjectSize :: "engine \<Rightarrow> ObjectType \<Rightarrow> nat" where
  "getProjectSize eng t = length (object_ids eng t)"

text \<open>Modelled from the spec: \<open>identifier_exists(object_type, id)\<close> of the engine interface.\<close>

definition ObjectIDexist :: "engine \<Rightarrow> ObjectType \<Rightarrow> string \<Rightarrow> bool" where
  "ObjectIDexist eng t ID = (ID \<in> set (object_ids eng t))"

text \<open>
  Modelled from the spec: \<open>identifier_at(object_type, index)\<close> of the engine interface.
  The spec gives no result for an index past the table; the model fails there.
\<close>

definition getObjectId :: "engine \<Rightarrow> ObjectType \<Rightarrow> nat \<Rightarrow> error + string" where
  "getObjectId eng t i =
     (if i < length (object_ids eng t) then Inr (object_ids eng t ! i) else Inl EngineFault)"

text \<open>Modelled from the spec: \<open>identifier_list(object_type)\<close> of the engine interface.\<close>

definition getObjectIDList :: "engine \<Rightarrow> ObjectType \<Rightarrow> string list" where
  "getObjectIDList eng t = object_ids eng t"

text \<open>
  Modelled from the spec: \<open>entity_kind(id)\<close> of the engine interface. The spec gives
  no result for an identifier the engine does not hold; the model fails there, as it
  does in every per-identifier call below.
\<close>

definition getNodeType :: "engine \<Rightarrow> string \<Rightarrow> error + NodeType" where
  "getNodeType eng ID =
     (if ID \<in> set (object_ids eng NODE) then Inr (node_kind eng ID) else Inl EngineFault)"

text \<open>Modelled from the spec: \<open>get_parameter(id, param_code)\<close>, read live from engine state.\<close>

definition getNodeParam :: "engine \<Rightarrow> string \<Rightarrow> NodeParams \<Rightarrow> error + real" where
  "getNodeParam eng ID p =
     (if ID \<in> set (object_ids eng NODE) then Inr (node_params eng ID p) else Inl EngineFault)"

text \<open>
  Modelled from the spec: \<open>set_parameter(id, param_code, value)\<close>, which writes the
  value into engine state with no bounds validation.
\<close>

definition setNodeParam :: "engine \<Rightarrow> string \<Rightarrow> NodeParams \<Rightarrow> real \<Rightarrow> error + engine" where
  "setNodeParam eng ID p v =
     (if ID \<in> set (object_ids eng NODE)
      then Inr (eng\<lparr>node_params := (node_params eng)(ID := (node_params eng ID)(p := v))\<rparr>)
      else Inl EngineFault)"

text \<open>
  Modelled from the spec: \<open>get_result(id, result_code)\<close>, which returns 0 and a
  warning if no run is active. The warnings raised by a call are returned beside
  the value.
\<close>

definition getNodeResult :: "engine \<Rightarrow> string \<Rightarrow> NodeResults \<Rightarrow> error + real \<times> warning list" where
  "getNodeResult eng ID r =
     (if ID \<in> set (object_ids eng NODE)
      then (if running eng then Inr (node_results eng ID r, [])
            else Inr (0, [SimulationNotRunning]))
      else Inl EngineFault)"

text \<open>
  Modelled from the spec: \<open>set_forced_stage(id, stage)\<close>, a held-constant override
  kept in engine state until overwritten.
\<close>

definition setOutfallStage :: "engine \<Rightarrow> string \<Rightarrow> real \<Rightarrow> error + engine" where
  "setOutfallStage eng ID stage =
     (if ID \<in> set (object_ids eng NODE)
      then Inr (eng\<lparr>outfall_stages := (outfall_stages eng)(ID \<mapsto> stage)\<rparr>)
      else Inl EngineFault)"

text \<open>
  Modelled from the spec: \<open>create_sub_resource(id, seq, type, area, length, c1, c2, c3)\<close>,
  which registers a resource inside the engine keyed by (node identifier, sequence number).
\<close>

definition setNodeOpening ::
  "engine \<Rightarrow> string \<Rightarrow> nat \<Rightarrow> nat \<Rightarrow> real \<Rightarrow> real \<Rightarrow> real \<Rightarrow> real \<Rightarrow> real \<Rightarrow> error + engine" where
  "setNodeOpening eng ID idx opening_type opening_area opening_length
       coeff_orifice coeff_freeweir coeff_subweir =
     (if ID \<in> set (object_ids eng NODE)
      then Inr (eng\<lparr>opening_table := (opening_table eng)((ID, idx) \<mapsto>
                  \<lparr>o_type = opening_type, o_area = opening_area, o_length = opening_length,
                   o_coeff_orifice = coeff_orifice, o_coeff_freeweir = coeff_freeweir,
                   o_coeff_subweir = coeff_subweir\<rparr>)\<rparr>)
      else Inl EngineFault)"

subsection \<open>Classes of nodes.py\<close>

text \<open>
  \<open>Outfall\<close> and \<open>Storage\<close> are subclasses of \<open>Node\<close>. An instance is a record of its
  fields and its current class, since \<open>Nodes.__getitem__\<close> assigns \<open>__class__\<close>.
\<close>

datatype pyclass = Node_class | Outfall_class | Storage_class

record view =
  v_model :: handle
  v_nodeid :: string
  v_class :: pyclass

record Nodes =
  n_model :: handle
  cuindex :: nat
  nNodes :: nat

text \<open>
  \<open>Node.__init__(self, model, nodeid)\<close>: the loaded check comes first, then the
  identifier is looked up in the engine's identifier list.
\<close>

definition Node_init :: "store \<Rightarrow> handle \<Rightarrow> string \<Rightarrow> error + view" where
  "Node_init h model nodeid =
     (if \<not> fileLoaded (h model) then Inl (PYSWMMException ''SWMM Model Not Open'')
      else if nodeid \<notin> set (getObjectIDList (h model) NODE)
        then Inl (PYSWMMException ''ID Not valid'')
      else Inr \<lparr>v_model = model, v_nodeid = nodeid, v_class = Node_class\<rparr>)"

definition Node_nodeid :: "view \<Rightarrow> string" where
  "Node_nodeid self = v_nodeid self"

definition Node_is_junction :: "store \<Rightarrow> view \<Rightarrow> error + bool" where
  "Node_is_junction h self =
     (case getNodeType (h (v_model self)) (v_nodeid self) of
        Inl e \<Rightarrow> Inl e | Inr k \<Rightarrow> Inr (k = junction))"

definition Node_is_outfall :: "store \<Rightarrow> view \<Rightarrow> error + bool" where
  "Node_is_outfall h self =
     (case getNodeType (h (v_model self)) (v_nodeid self) of
        Inl e \<Rightarrow> Inl e | Inr k \<Rightarrow> Inr (k = outfall))"

definition Node_is_storage :: "store \<Rightarrow> view \<Rightarrow> error + bool" where
  "Node_is_storage h self =
     (case getNodeType (h (v_model self)) (v_nodeid self) of
        Inl e \<Rightarrow> Inl e | Inr k \<Rightarrow> Inr (k = storage))"

definition Node_is_divider :: "store \<Rightarrow> view \<Rightarrow> error + bool" where
  "Node_is_divider h self =
     (case getNodeType (h (v_model self)) (v_nodeid self) of
        Inl e \<Rightarrow> Inl e | Inr k \<Rightarrow> Inr (k = divider))"

text \<open>
  \<open>Nodes.__init__(self, model)\<close>. The argument is the simulation object; the model
  takes the engine reference \<open>model._model\<close> it holds. The node count is read once, here.
\<close>

definition Nodes_init :: "store \<Rightarrow> handle \<Rightarrow> error + Nodes" where
  "Nodes_init h model =
     (if \<not> fileLoaded (h model) then Inl (PYSWMMException ''SWMM Model Not Open'')
      else Inr \<lparr>n_model = model, cuindex = 0, nNodes = getProjectSize (h model) NODE\<rparr>)"

definition Nodes_len :: "store \<Rightarrow> Nodes \<Rightarrow> nat" where
  "Nodes_len h self = getProjectSize (h (n_model self)) NODE"

definition Nodes_contains :: "store \<Rightarrow> Nodes \<Rightarrow> string \<Rightarrow> bool" where
  "Nodes_contains h self nodeid = ObjectIDexist (h (n_model self)) NODE nodeid"

text \<open>
  Lines 94 to 99 of \<open>Nodes.__getitem__\<close>: the freshly built \<open>Node\<close> gets its
  \<open>__class__\<close> assigned from the engine-reported kind (\<open>nd\<close> and \<open>_nd\<close> are the same
  object). Neither \<open>Outfall.__init__\<close> nor \<open>Storage.__init__\<close> is called.
\<close>

definition reclassify :: "store \<Rightarrow> view \<Rightarrow> error + view" where
  "reclassify h nd =
     (case Node_is_outfall h nd of
        Inl e \<Rightarrow> Inl e
      | Inr True \<Rightarrow> Inr (nd\<lparr>v_class := Outfall_class\<rparr>)
      | Inr False \<Rightarrow>
          (case Node_is_storage h nd of
             Inl e \<Rightarrow> Inl e
           | Inr True \<Rightarrow> Inr (nd\<lparr>v_class := Storage_class\<rparr>)
           | Inr False \<Rightarrow> Inr nd))"

text \<open>
  \<open>Nodes.__getitem__(self, nodeid)\<close>: the membership test, then the construction of
  a \<open>Node\<close>, then the class assignment above.
\<close>

definition Nodes_getitem :: "store \<Rightarrow> Nodes \<Rightarrow> string \<Rightarrow> error + view" where
  "Nodes_getitem h self nodeid =
     (if Nodes_contains h self nodeid then
        (case Node_init h (n_model self) nodeid of
           Inl e \<Rightarrow> Inl e
         | Inr nd \<Rightarrow> reclassify h nd)
      else Inl (PYSWMMException ''Node ID Does not Exist''))"

definition Nodes_iter :: "Nodes \<Rightarrow> Nodes" where
  "Nodes_iter self = self"

text \<open>The property \<open>Nodes._nodeid\<close>: the identifier at the cursor, asked of the engine.\<close>

definition Nodes_nodeid :: "store \<Rightarrow> Nodes \<Rightarrow> error + string" where
  "Nodes_nodeid h self = getObjectId (h (n_model self)) NODE (cuindex self)"

text \<open>
  \<open>Nodes.__next__(self)\<close> returns the value or exception together with the
  collection, whose cursor moves only after \<open>__getitem__\<close> has returned.
\<close>

definition Nodes_next :: "store \<Rightarrow> Nodes \<Rightarrow> (error + view) \<times> Nodes" where
  "Nodes_next h self =
     (if cuindex self < nNodes self then
        (case Nodes_nodeid h self of
           Inl e \<Rightarrow> (Inl e, self)
         | Inr nid \<Rightarrow>
            (case Nodes_getitem h self nid of
               Inl e \<Rightarrow> (Inl e, self)
             | Inr nodeobject \<Rightarrow> (Inr nodeobject, self\<lparr>cuindex := cuindex self + 1\<rparr>)))
      else (Inl StopIteration, self))"

subsection \<open>Parameter and result properties of \<open>Node\<close>\<close>

text \<open>
  Each property getter is one \<open>getNodeParam\<close> call and each setter one
  \<open>setNodeParam\<close> call on the engine the view refers to; the setter leaves the
  engine's new state in the store.
\<close>

definition store_engine :: "store \<Rightarrow> handle \<Rightarrow> error + engine \<Rightarrow> error + store" where
  "store_engine h model r = (case r of Inl e \<Rightarrow> Inl e | Inr eng \<Rightarrow> Inr (h(model := eng)))"

definition Node_invert_elevation :: "store \<Rightarrow> view \<Rightarrow> error + real" where
  "Node_invert_elevation h self = getNodeParam (h (v_model self)) (v_nodeid self) invertElev"

definition Node_invert_elevation_setter :: "store \<Rightarrow> view \<Rightarrow> real \<Rightarrow> error + store" where
  "Node_invert_elevation_setter h self param =
     store_engine h (v_model self)
       (setNodeParam (h (v_model self)) (v_nodeid self) invertElev param)"

definition Node_full_depth :: "store \<Rightarrow> view \<Rightarrow> error + real" where
  "Node_full_depth h self = getNodeParam (h (v_model self)) (v_nodeid self) fullDepth"

definition Node_full_depth_setter :: "store \<Rightarrow> view \<Rightarrow> real \<Rightarrow> error + store" where
  "Node_full_depth_setter h self param =
     store_engine h (v_model self)
       (setNodeParam (h (v_model self)) (v_nodeid self) fullDepth param)"

definition Node_surcharge_depth :: "store \<Rightarrow> view \<Rightarrow> error + real" where
  "Node_surcharge_depth h self = getNodeParam (h (v_model self)) (v_nodeid self) surDepth"

definition Node_surcharge_depth_setter :: "store \<Rightarrow> view \<Rightarrow> real \<Rightarrow> error + store" where
  "Node_surcharge_depth_setter h self param =
     store_engine h (v_model self)
       (setNodeParam (h (v_model self)) (v_nodeid self) surDepth param)"

definition Node_ponding_area :: "store \<Rightarrow> view \<Rightarrow> error + real" where
  "Node_ponding_area h self = getNodeParam (h (v_model self)) (v_nodeid self) pondedArea"

definition Node_ponding_area_setter :: "store \<Rightarrow> view \<Rightarrow> real \<Rightarrow> error + store" where
  "Node_ponding_area_setter h self param =
     store_engine h (v_model self)
       (setNodeParam (h (v_model self)) (v_nodeid self) pondedArea param)"

definition Node_surface_area :: "store \<Rightarrow> view \<Rightarrow> error + real" where
  "Node_surface_area h self = getNodeParam (h (v_model self)) (v_nodeid self) surfaceArea"

definition Node_surface_area_setter :: "store \<Rightarrow> view \<Rightarrow> real \<Rightarrow> error + store" where
  "Node_surface_area_setter h self param =
     store_engine h (v_model self)
       (setNodeParam (h (v_model self)) (v_nodeid self) surfaceArea param)"

definition Node_initial_depth :: "store \<Rightarrow> view \<Rightarrow> error + real" where
  "Node_initial_depth h self = getNodeParam (h (v_model self)) (v_nodeid self) initDepth"

definition Node_initial_depth_setter :: "store \<Rightarrow> view \<Rightarrow> real \<Rightarrow> error + store" where
  "Node_initial_depth_setter h self param =
     store_engine h (v_model self)
       (setNodeParam (h (v_model self)) (v_nodeid self) initDepth param)"

definition Node_coupling_area :: "store \<Rightarrow> view \<Rightarrow> error + real" where
  "Node_coupling_area h self = getNodeParam (h (v_model self)) (Node_nodeid self) couplingArea"

definition Node_coupling_area_setter :: "store \<Rightarrow> view \<Rightarrow> real \<Rightarrow> error + store" where
  "Node_coupling_area_setter h self param =
     store_engine h (v_model self)
       (setNodeParam (h (v_model self)) (Node_nodeid self) couplingArea param)"

definition Node_overland_depth :: "store \<Rightarrow> view \<Rightarrow> error + real" where
  "Node_overland_depth h self = getNodeParam (h (v_model self)) (Node_nodeid self) overlandDepth"

definition Node_overland_depth_setter :: "store \<Rightarrow> view \<Rightarrow> real \<Rightarrow> error + store" where
  "Node_overland_depth_setter h self param =
     store_engine h (v_model self)
       (setNodeParam (h (v_model self)) (Node_nodeid self) overlandDepth param)"

text \<open>The read/write properties of \<open>Node\<close>, each getter beside its setter.\<close>

definition Node_parameter_properties ::
  "((store \<Rightarrow> view \<Rightarrow> error + real) \<times> (store \<Rightarrow> view \<Rightarrow> real \<Rightarrow> error + store)) list" where
  "Node_parameter_properties =
     [(Node_invert_elevation, Node_invert_elevation_setter),
      (Node_full_depth, Node_full_depth_setter),
      (Node_surcharge_depth, Node_surcharge_depth_setter),
      (Node_ponding_area, Node_ponding_area_setter),
      (Node_surface_area, Node_surface_area_setter),
      (Node_initial_depth, Node_initial_depth_setter),
      (Node_coupling_area, Node_coupling_area_setter),
      (Node_overland_depth, Node_overland_depth_setter)]"

definition Node_total_inflow :: "store \<Rightarrow> view \<Rightarrow> error + real \<times> warning list" where
  "Node_total_inflow h self = getNodeResult (h (v_model self)) (v_nodeid self) totalinflow"

definition Node_total_outflow :: "store \<Rightarrow> view \<Rightarrow> error + real \<times> warning list" where
  "Node_total_outflow h self = getNodeResult (h (v_model self)) (v_nodeid self) outflow"

definition Node_losses :: "store \<Rightarrow> view \<Rightarrow> error + real \<times> warning list" where
  "Node_losses h self = getNodeResult (h (v_model self)) (v_nodeid self) losses"

definition Node_volume :: "store \<Rightarrow> view \<Rightarrow> error + real \<times> warning list" where
  "Node_volume h self = getNodeResult (h (v_model self)) (v_nodeid self) newVolume"

definition Node_flooding :: "store \<Rightarrow> view \<Rightarrow> error + real \<times> warning list" where
  "Node_flooding h self = getNodeResult (h (v_model self)) (v_nodeid self) overflow"

definition Node_depth :: "store \<Rightarrow> view \<Rightarrow> error + real \<times> warning list" where
  "Node_depth h self = getNodeResult (h (v_model self)) (v_nodeid self) newDepth"

definition Node_head :: "store \<Rightarrow> view \<Rightarrow> error + real \<times> warning list" where
  "Node_head h self = getNodeResult (h (v_model self)) (v_nodeid self) newHead"

definition Node_lateral_inflow :: "store \<Rightarrow> view \<Rightarrow> error + real \<times> warning list" where
  "Node_lateral_inflow h self = getNodeResult (h (v_model self)) (v_nodeid self) newLatFlow"

definition Node_coupling_inflow :: "store \<Rightarrow> view \<Rightarrow> error + real \<times> warning list" where
  "Node_coupling_inflow h self = getNodeResult (h (v_model self)) (Node_nodeid self) overlandInflow"

text \<open>The read-only result properties of \<open>Node\<close>.\<close>

definition Node_result_properties :: "(store \<Rightarrow> view \<Rightarrow> error + real \<times> warning list) list" where
  "Node_result_properties =
     [Node_total_inflow, Node_total_outflow, Node_losses, Node_volume, Node_flooding,
      Node_depth, Node_head, Node_lateral_inflow, Node_coupling_inflow]"

subsection \<open>Attribute lookup on a view\<close>

text \<open>
  The names each class body of nodes.py defines, in source order, and the two fields
  \<open>Node.__init__\<close> sets on the instance. Python looks a name up on the instance, then
  along the classes of the method resolution order; the names every Python object
  inherits from \<open>object\<close> are left out.
\<close>

definition Node_names :: "string list" where
  "Node_names =
     [''__init__'', ''nodeid'', ''is_junction'', ''is_outfall'', ''is_storage'', ''is_divider'',
      ''invert_elevation'', ''full_depth'', ''surcharge_depth'', ''ponding_area'',
      ''surface_area'', ''initial_depth'', ''total_inflow'', ''total_outflow'', ''losses'',
      ''volume'', ''flooding'', ''depth'', ''head'', ''lateral_inflow'', ''generated_inflow'',
      ''statistics'', ''is_coupled'', ''coupling_inflow'', ''coupling_area'', ''overland_depth'',
      ''create_opening'', ''number_of_openings'', ''openings_indices'']"

definition Outfall_names :: "string list" where
  "Outfall_names = [''__init__'', ''outfall_statistics'', ''cumulative_inflow'', ''outfall_stage'']"

definition Storage_names :: "string list" where
  "Storage_names = [''__init__'', ''storage_statistics'']"

definition instance_names :: "string list" where
  "instance_names = [''_model'', ''_nodeid'']"

fun class_names :: "pyclass \<Rightarrow> string list" where
  "class_names Node_class = Node_names"
| "class_names Outfall_class = Outfall_names"
| "class_names Storage_class = Storage_names"

fun mro :: "pyclass \<Rightarrow> pyclass list" where
  "mro Node_class = [Node_class]"
| "mro Outfall_class = [Outfall_class, Node_class]"
| "mro Storage_class = [Storage_class, Node_class]"

definition hasattr :: "view \<Rightarrow> string \<Rightarrow> bool" where
  "hasattr self name =
     (name \<in> set instance_names \<or> (\<exists>c \<in> set (mro (v_class self)). name \<in> set (class_names c)))"

text \<open>
  \<open>Outfall.outfall_stage(self, stage)\<close>, called as \<open>nd.outfall_stage(stage)\<close> on a
  view: Python raises \<open>AttributeError\<close> unless the view's class provides the name.
\<close>

definition Outfall_outfall_stage :: "store \<Rightarrow> view \<Rightarrow> real \<Rightarrow> error + store" where
  "Outfall_outfall_stage h self stage =
     (if hasattr self ''outfall_stage''
      then store_engine h (v_model self)
             (setOutfallStage (h (v_model self)) (v_nodeid self) stage)
      else Inl (AttributeError ''outfall_stage''))"

subsection \<open>Openings\<close>

text \<open>
  \<open>Opening.newid = itertools.count()\<close> is one counter for the whole process, started
  at 0 when the class body runs. \<open>next\<close> hands out its current value and adds one;
  the model threads the counter beside the store.
\<close>

record Opening =
  op_nodeid :: string
  op_model :: handle
  op_id :: nat

definition itertools_count :: nat where
  "itertools_count = 0"

definition next_count :: "nat \<Rightarrow> nat \<times> nat" where
  "next_count newid = (newid, newid + 1)"

text \<open>
  \<open>Opening.__init__\<close>: the number is taken before the engine is called, so it is
  used up even when the engine call raises.
\<close>

definition Opening_init ::
  "nat \<Rightarrow> store \<Rightarrow> view \<Rightarrow> nat \<Rightarrow> real \<Rightarrow> real \<Rightarrow> real \<Rightarrow> real \<Rightarrow> real
     \<Rightarrow> (error + Opening) \<times> nat \<times> store" where
  "Opening_init newid h node_object opening_type opening_area opening_length
       coeff_orifice coeff_freeweir coeff_subweir =
     (let nodeid = Node_nodeid node_object;
          model = v_model node_object;
          (i, newid') = next_count newid
      in case setNodeOpening (h model) nodeid i opening_type opening_area opening_length
                coeff_orifice coeff_freeweir coeff_subweir of
           Inl e \<Rightarrow> (Inl e, newid', h)
         | Inr eng \<Rightarrow>
             (Inr \<lparr>op_nodeid = nodeid, op_model = model, op_id = i\<rparr>, newid', h(model := eng)))"

definition Node_create_opening ::
  "nat \<Rightarrow> store \<Rightarrow> view \<Rightarrow> nat \<Rightarrow> real \<Rightarrow> real \<Rightarrow> real \<Rightarrow> real \<Rightarrow> real
     \<Rightarrow> (error + Opening) \<times> nat \<times> store" where
  "Node_create_opening newid h self opening_type opening_area opening_length
       coeff_orifice coeff_freeweir coeff_subweir =
     Opening_init newid h self opening_type opening_area opening_length
       coeff_orifice coeff_freeweir coeff_subweir"

text \<open>
  A run of the process that constructs openings one after the other, each on its own
  node view with its own physical parameters, and keeps every outcome.
\<close>

fun create_openings ::
  "nat \<Rightarrow> store \<Rightarrow> (view \<times> opening_entry) list \<Rightarrow> (error + Opening) list \<times> nat \<times> store" where
  "create_openings newid h [] = ([], newid, h)"
| "create_openings newid h ((nd, a) # reqs) =
     (case Node_create_opening newid h nd (o_type a) (o_area a) (o_length a)
             (o_coeff_orifice a) (o_coeff_freeweir a) (o_coeff_subweir a) of
        (r, newid', h') \<Rightarrow>
          (case create_openings newid' h' reqs of
             (rs, newid'', h'') \<Rightarrow> (r # rs, newid'', h'')))"

subsection \<open>Driving the iterator\<close>

text \<open>
  \<open>for node in nodes: ...\<close> calls \<open>__iter__\<close> once and then \<open>__next__\<close> until it
  raises \<open>StopIteration\<close>; any other exception leaves the loop. The loop body may
  change the engines between two calls: \<open>hs k\<close> is the store at the k-th call from now.
\<close>

lemma Nodes_next_measure:
  "Nodes_next h it = (Inr nd, it') \<Longrightarrow> nNodes it' - cuindex it' < nNodes it - cuindex it"
  by (auto simp: Nodes_next_def split: if_splits sum.splits)

function for_loop :: "(nat \<Rightarrow> store) \<Rightarrow> Nodes \<Rightarrow> error + view list \<times> Nodes" where
  "for_loop hs it =
     (case Nodes_next (hs 0) it of
        (Inl StopIteration, it') \<Rightarrow> Inr ([], it')
      | (Inl e, it') \<Rightarrow> Inl e
      | (Inr nd, it') \<Rightarrow>
          (case for_loop (\<lambda>k. hs (Suc k)) it' of
             Inl e \<Rightarrow> Inl e
           | Inr (vs, it'') \<Rightarrow> Inr (nd # vs, it'')))"
  by pat_completeness auto
termination
  by (relation "measure (\<lambda>(hs, it). nNodes it - cuindex it)")
     (auto dest: Nodes_next_measure [OF sym])

declare for_loop.simps [simp del]

text \<open>
  Any number of \<open>__next__\<close> calls on one collection, the k-th against the store
  \<open>hs ! k\<close>, every outcome kept: what loops, broken-off loops and direct \<open>next\<close>
  calls on the same instance add up to.
\<close>

fun next_calls :: "store list \<Rightarrow> Nodes \<Rightarrow> (error + view) list \<times> Nodes" where
  "next_calls [] it = ([], it)"
| "next_calls (h # hs) it =
     (case Nodes_next h it of
        (r, it') \<Rightarrow> (case next_calls hs it' of (rs, it'') \<Rightarrow> (r # rs, it'')))"

subsection \<open>A small model to run the code on\<close>

text \<open>
  A loaded engine with the four nodes of the documentation's example, \<open>J0\<close> an outfall
  and \<open>J3\<close> a storage unit, no run active; and the same engine after a fifth node
  was added and \<open>J1\<close> renamed in place.
\<close>

definition example_engine :: engine where
  "example_engine =
     \<lparr>fileLoaded = True, running = False,
      object_ids = (\<lambda>t. if t = NODE then [''J0'', ''J1'', ''J2'', ''J3''] else []),
      node_kind = (\<lambda>i. if i = ''J0'' then outfall else if i = ''J3'' then storage else junction),
      node_params = (\<lambda>i p. 0),
      node_results = (\<lambda>i r. 7),
      outfall_stages = (\<lambda>i. None),
      opening_table = (\<lambda>k. None)\<rparr>"

definition changed_engine :: engine where
  "changed_engine =
     example_engine\<lparr>object_ids :=
        (\<lambda>t. if t = NODE then [''J0'', ''K1'', ''J2'', ''J3'', ''J4''] else [])\<rparr>"

definition closed_engine :: engine where
  "closed_engine = example_engine\<lparr>fileLoaded := False\<rparr>"

definition example_store :: store where
  "example_store = (\<lambda>r. if r = 0 then example_engine else closed_engine)"

definition changed_store :: store where
  "changed_store = (\<lambda>r. if r = 0 then changed_engine else closed_engine)"

definition example_nodes :: Nodes where
  "example_nodes = \<lparr>n_model = 0, cuindex = 0, nNodes = 4\<rparr>"

definition example_opening :: opening_entry where
  "example_opening = \<lparr>o_type = 0, o_area = 1, o_length = 2, o_coeff_orifice = 0.5,
     o_coeff_freeweir = 0.25, o_coeff_subweir = 0.125\<rparr>"

definition example_requests :: "(view \<times> opening_entry) list" where
  "example_requests =
     [(\<lparr>v_model = 0, v_nodeid = ''J1'', v_class = Node_class\<rparr>, example_opening),
      (\<lparr>v_model = 0, v_nodeid = ''J1'', v_class = Node_class\<rparr>, example_opening),
      (\<lparr>v_model = 0, v_nodeid = ''J2'', v_class = Node_class\<rparr>, example_opening)]"

section \<open>Properties\<close>

lemmas engine_calls =
  getProjectSize_def ObjectIDexist_def getObjectId_def getObjectIDList_def getNodeType_def
  getNodeParam_def setNodeParam_def getNodeResult_def setOutfallStage_def setNodeOpening_def

lemmas example_defs =
  example_store_def example_engine_def changed_store_def changed_engine_def
  closed_engine_def example_nodes_def

subsection \<open>Membership and indexed lookup\<close>

text \<open>
  C1. On a loaded engine, every identifier for which the membership test of the
  collection answers true can be looked up: \<open>Nodes[id]\<close> does not raise, and the view
  it returns has \<open>nodeid\<close> equal to the identifier asked for.
\<close>

theorem lookup_of_member:
  assumes "fileLoaded (h (n_model self))" and "Nodes_contains h self nodeid"
  shows "\<exists>nd. Nodes_getitem h self nodeid = Inr nd \<and> Node_nodeid nd = nodeid"
  using assms
  by (auto simp: Nodes_getitem_def Nodes_contains_def Node_init_def reclassify_def
      Node_is_outfall_def Node_is_storage_def Node_nodeid_def engine_calls split: bool.splits)

theorem lookup_of_member_witness:
  "fileLoaded (example_store (n_model example_nodes))
   \<and> Nodes_contains example_store example_nodes ''J1''
   \<and> (\<exists>nd. Nodes_getitem example_store example_nodes ''J1'' = Inr nd \<and> Node_nodeid nd = ''J1'')"
  using lookup_of_member [of example_store example_nodes "''J1''"]
  by (simp add: example_defs Nodes_contains_def ObjectIDexist_def)

text \<open>
  C2. For every identifier that is not in the engine's node namespace, the
  membership test answers false and \<open>Nodes[id]\<close> raises the \<open>PYSWMMException\<close>
  "Node ID Does not Exist"; the result is the exception, no view.
\<close>

theorem lookup_of_stranger:
  assumes "nodeid \<notin> set (object_ids (h (n_model self)) NODE)"
  shows "\<not> Nodes_contains h self nodeid
    \<and> Nodes_getitem h self nodeid = Inl (PYSWMMException ''Node ID Does not Exist'')"
  using assms by (simp add: Nodes_getitem_def Nodes_contains_def ObjectIDexist_def)

theorem lookup_of_stranger_witness:
  "''J9'' \<notin> set (object_ids (example_store (n_model example_nodes)) NODE)
   \<and> \<not> Nodes_contains example_store example_nodes ''J9''
   \<and> Nodes_getitem example_store example_nodes ''J9''
       = Inl (PYSWMMException ''Node ID Does not Exist'')"
  using lookup_of_stranger [of "''J9''" example_store example_nodes]
  by (simp add: example_defs)

subsection \<open>Parameters and results\<close>

text \<open>
  C6. For every view whose identifier the engine holds and every read/write
  property of \<open>Node\<close> (invert elevation, full depth, surcharge depth, ponding area,
  surface area, initial depth, coupling area, overland depth): the setter succeeds,
  and reading the same property afterwards returns the value written.
\<close>

theorem parameter_round_trip:
  assumes "(getter, setter) \<in> set Node_parameter_properties"
    and "ObjectIDexist (h (v_model self)) NODE (v_nodeid self)"
  shows "\<exists>h'. setter h self v = Inr h' \<and> getter h' self = Inr v"
  using assms
  by (auto simp: Node_parameter_properties_def store_engine_def Node_nodeid_def engine_calls
      Node_invert_elevation_def Node_invert_elevation_setter_def
      Node_full_depth_def Node_full_depth_setter_def
      Node_surcharge_depth_def Node_surcharge_depth_setter_def
      Node_ponding_area_def Node_ponding_area_setter_def
      Node_surface_area_def Node_surface_area_setter_def
      Node_initial_depth_def Node_initial_depth_setter_def
      Node_coupling_area_def Node_coupling_area_setter_def
      Node_overland_depth_def Node_overland_depth_setter_def)

theorem parameter_round_trip_witness:
  "(Node_invert_elevation, Node_invert_elevation_setter) \<in> set Node_parameter_properties
   \<and> ObjectIDexist (example_store 0) NODE ''J1''
   \<and> (\<exists>h'. Node_invert_elevation_setter example_store
              \<lparr>v_model = 0, v_nodeid = ''J1'', v_class = Node_class\<rparr> 200 = Inr h'
         \<and> Node_invert_elevation h' \<lparr>v_model = 0, v_nodeid = ''J1'', v_class = Node_class\<rparr>
             = Inr 200)"
  using parameter_round_trip [of Node_invert_elevation Node_invert_elevation_setter
      example_store "\<lparr>v_model = 0, v_nodeid = ''J1'', v_class = Node_class\<rparr>" 200]
  by (simp add: Node_parameter_properties_def example_defs ObjectIDexist_def)

text \<open>
  C7. For every result property of \<open>Node\<close> (total inflow, outflow, losses, volume,
  flooding, depth, head, lateral inflow, coupling inflow): read on a view whose
  identifier the engine holds while no run is active, it returns the value 0 with
  one warning and raises nothing.
\<close>

theorem result_without_run:
  assumes "result \<in> set Node_result_properties"
    and "ObjectIDexist (h (v_model self)) NODE (v_nodeid self)"
    and "\<not> running (h (v_model self))"
  shows "result h self = Inr (0, [SimulationNotRunning])"
  using assms
  by (auto simp: Node_result_properties_def Node_nodeid_def engine_calls
      Node_total_inflow_def Node_total_outflow_def Node_losses_def Node_volume_def
      Node_flooding_def Node_depth_def Node_head_def Node_lateral_inflow_def
      Node_coupling_inflow_def)

theorem result_without_run_witness:
  "Node_total_inflow \<in> set Node_result_properties
   \<and> ObjectIDexist (example_store 0) NODE ''J1''
   \<and> \<not> running (example_store 0)
   \<and> Node_total_inflow example_store \<lparr>v_model = 0, v_nodeid = ''J1'', v_class = Node_class\<rparr>
       = Inr (0, [SimulationNotRunning])"
  using result_without_run [of Node_total_inflow example_store
      "\<lparr>v_model = 0, v_nodeid = ''J1'', v_class = Node_class\<rparr>"]
  by (simp add: Node_result_properties_def example_defs ObjectIDexist_def)

subsection \<open>Construction\<close>

text \<open>
  C8. Building a \<open>Nodes\<close> collection on an engine that is not loaded raises the
  \<open>PYSWMMException\<close> "SWMM Model Not Open". Building a \<open>Node\<close> on a loaded engine from
  an identifier that is not in the engine's identifier list raises the
  \<open>PYSWMMException\<close> "ID Not valid". An identifier the engine does not list never
  gives a view, loaded or not. \<open>Node.__init__\<close> makes the loaded check first, so on an
  engine that is not loaded the exception is "SWMM Model Not Open" for every identifier.
\<close>

theorem construction_errors:
  "(\<not> fileLoaded (h model) \<longrightarrow>
      Nodes_init h model = Inl (PYSWMMException ''SWMM Model Not Open''))
   \<and> (fileLoaded (h model) \<and> nodeid \<notin> set (getObjectIDList (h model) NODE) \<longrightarrow>
      Node_init h model nodeid = Inl (PYSWMMException ''ID Not valid''))
   \<and> (nodeid \<notin> set (getObjectIDList (h model) NODE) \<longrightarrow>
      (\<exists>e. Node_init h model nodeid = Inl e))"
  by (simp add: Nodes_init_def Node_init_def)

theorem construction_errors_witness:
  "\<not> fileLoaded (example_store 1)
   \<and> Nodes_init example_store 1 = Inl (PYSWMMException ''SWMM Model Not Open'')
   \<and> fileLoaded (example_store 0)
   \<and> ''J9'' \<notin> set (getObjectIDList (example_store 0) NODE)
   \<and> Node_init example_store 0 ''J9'' = Inl (PYSWMMException ''ID Not valid'')
   \<and> (\<exists>e. Node_init example_store 0 ''J9'' = Inl e)"
  using construction_errors [of example_store 1 "''J9''"]
    construction_errors [of example_store 0 "''J9''"]
  by (simp add: example_defs getObjectIDList_def)

subsection \<open>Reclassification\<close>

text \<open>
  C9. The view \<open>Nodes[id]\<close> returns is the \<open>Node\<close> that \<open>Node.__init__\<close> built, with at
  most its class changed: its engine reference is the collection's and its
  identifier is the one asked for, as set at construction. The class assignment
  reads nothing of the engine but the node's kind: against any store that answers
  the kind query alike it gives the same view, whatever that store says about the
  engine being loaded, its identifier list or its parameters.
\<close>

theorem reclassify_frame:
  assumes "Nodes_getitem h self nodeid = Inr nd"
  shows "\<exists>nd0. Node_init h (n_model self) nodeid = Inr nd0
      \<and> reclassify h nd0 = Inr nd
      \<and> nd = nd0\<lparr>v_class := v_class nd\<rparr>
      \<and> v_model nd = n_model self \<and> v_nodeid nd = nodeid
      \<and> (\<forall>h'. getNodeType (h' (v_model nd0)) (v_nodeid nd0)
                 = getNodeType (h (v_model nd0)) (v_nodeid nd0)
               \<longrightarrow> reclassify h' nd0 = Inr nd)"
  using assms
  by (auto simp: Nodes_getitem_def Node_init_def reclassify_def
      Node_is_outfall_def Node_is_storage_def split: if_splits sum.splits bool.splits)

theorem reclassify_frame_witness:
  "Nodes_getitem example_store example_nodes ''J0''
     = Inr \<lparr>v_model = 0, v_nodeid = ''J0'', v_class = Outfall_class\<rparr>
   \<and> Node_init example_store (n_model example_nodes) ''J0''
     = Inr \<lparr>v_model = 0, v_nodeid = ''J0'', v_class = Node_class\<rparr>
   \<and> getNodeType (changed_store 0) ''J0'' = getNodeType (example_store 0) ''J0''
   \<and> reclassify changed_store \<lparr>v_model = 0, v_nodeid = ''J0'', v_class = Node_class\<rparr>
     = Inr \<lparr>v_model = 0, v_nodeid = ''J0'', v_class = Outfall_class\<rparr>"
proof -
  have i: "Node_init example_store (n_model example_nodes) ''J0''
      = Inr \<lparr>v_model = 0, v_nodeid = ''J0'', v_class = Node_class\<rparr>"
    by (simp add: example_defs Node_init_def getObjectIDList_def)
  have g: "Nodes_getitem example_store example_nodes ''J0''
      = Inr \<lparr>v_model = 0, v_nodeid = ''J0'', v_class = Outfall_class\<rparr>"
    by (simp add: example_defs Nodes_getitem_def Nodes_contains_def Node_init_def reclassify_def
      Node_is_outfall_def engine_calls)
  have k: "getNodeType (changed_store 0) ''J0'' = getNodeType (example_store 0) ''J0''"
    by (simp add: example_defs getNodeType_def)
  from reclassify_frame [OF g] obtain nd0 where
    n: "Node_init example_store (n_model example_nodes) ''J0'' = Inr nd0"
    and r: "\<forall>h'. getNodeType (h' (v_model nd0)) (v_nodeid nd0)
                 = getNodeType (example_store (v_model nd0)) (v_nodeid nd0)
               \<longrightarrow> reclassify h' nd0
                   = Inr \<lparr>v_model = 0, v_nodeid = ''J0'', v_class = Outfall_class\<rparr>"
    by blast
  from n i have "nd0 = \<lparr>v_model = 0, v_nodeid = ''J0'', v_class = Node_class\<rparr>" by simp
  with r k have "reclassify changed_store \<lparr>v_model = 0, v_nodeid = ''J0'', v_class = Node_class\<rparr>
      = Inr \<lparr>v_model = 0, v_nodeid = ''J0'', v_class = Outfall_class\<rparr>" by simp
  with i g k show ?thesis by simp
qed

subsection \<open>Classes of the views\<close>

lemma hasattr_Node_names:
  "a \<in> set Node_names \<Longrightarrow> hasattr nd a"
  by (cases "v_class nd") (simp_all add: hasattr_def)

lemma outfall_only_not_Node:
  "a \<in> set [''outfall_statistics'', ''cumulative_inflow'', ''outfall_stage'']
    \<Longrightarrow> a \<notin> set Node_names \<and> a \<notin> set Storage_names \<and> a \<notin> set instance_names"
  by (auto simp: Node_names_def Storage_names_def instance_names_def)

lemma storage_only_not_Node:
  "''storage_statistics'' \<notin> set Node_names \<and> ''storage_statistics'' \<notin> set Outfall_names
     \<and> ''storage_statistics'' \<notin> set instance_names"
  by (simp add: Node_names_def Outfall_names_def instance_names_def)

lemma getitem_class:
  assumes "fileLoaded (h (n_model self))" and "Nodes_contains h self nodeid"
  shows "Nodes_getitem h self nodeid =
     Inr \<lparr>v_model = n_model self, v_nodeid = nodeid,
          v_class = (case node_kind (h (n_model self)) nodeid of
                       outfall \<Rightarrow> Outfall_class | storage \<Rightarrow> Storage_class | _ \<Rightarrow> Node_class)\<rparr>"
  using assms
  by (auto simp: Nodes_getitem_def Nodes_contains_def Node_init_def reclassify_def
      Node_is_outfall_def Node_is_storage_def engine_calls split: bool.splits NodeType.splits)

text \<open>
  C4. On a loaded engine, \<open>Nodes[id]\<close> for an identifier the engine reports as an
  outfall returns a view that has the three names only \<open>Outfall\<close> defines
  (\<open>outfall_statistics\<close>, \<open>cumulative_inflow\<close>, \<open>outfall_stage\<close>) and every name of
  \<open>Node\<close>, and \<open>outfall_stage\<close> can be called on it; for any other kind the view has
  none of the three and the call raises \<open>AttributeError\<close>, while every name of \<open>Node\<close>
  is still there. The view has \<open>storage_statistics\<close> exactly when the kind is storage.
\<close>

theorem lookup_class_by_kind:
  assumes "fileLoaded (h (n_model self))" and "Nodes_contains h self nodeid"
  shows "\<exists>nd k. Nodes_getitem h self nodeid = Inr nd
      \<and> getNodeType (h (n_model self)) nodeid = Inr k
      \<and> (\<forall>a \<in> set Node_names. hasattr nd a)
      \<and> (k = outfall \<longrightarrow>
            (\<forall>a \<in> set [''outfall_statistics'', ''cumulative_inflow'', ''outfall_stage''].
               hasattr nd a)
            \<and> (\<exists>h'. Outfall_outfall_stage h nd stage = Inr h'))
      \<and> (k \<noteq> outfall \<longrightarrow>
            (\<forall>a \<in> set [''outfall_statistics'', ''cumulative_inflow'', ''outfall_stage''].
               \<not> hasattr nd a)
            \<and> Outfall_outfall_stage h nd stage = Inl (AttributeError ''outfall_stage''))
      \<and> (hasattr nd ''storage_statistics'' \<longleftrightarrow> k = storage)"
proof -
  let ?k = "node_kind (h (n_model self)) nodeid"
  let ?nd = "\<lparr>v_model = n_model self, v_nodeid = nodeid,
          v_class = (case ?k of
                       outfall \<Rightarrow> Outfall_class | storage \<Rightarrow> Storage_class | _ \<Rightarrow> Node_class)\<rparr>"
  have g: "Nodes_getitem h self nodeid = Inr ?nd"
    using assms by (rule getitem_class)
  have mem: "nodeid \<in> set (object_ids (h (n_model self)) NODE)"
    using assms(2) by (simp add: Nodes_contains_def ObjectIDexist_def)
  then have t: "getNodeType (h (n_model self)) nodeid = Inr ?k"
    by (simp add: getNodeType_def)
  have base: "\<forall>a \<in> set Node_names. hasattr ?nd a"
    by (simp add: hasattr_Node_names)
  have out: "?k = outfall \<longrightarrow>
      (\<forall>a \<in> set [''outfall_statistics'', ''cumulative_inflow'', ''outfall_stage''].
         hasattr ?nd a)
      \<and> (\<exists>h'. Outfall_outfall_stage h ?nd stage = Inr h')"
    using mem
    by (simp add: hasattr_def Outfall_names_def Outfall_outfall_stage_def store_engine_def
        setOutfallStage_def)
  have nout: "?k \<noteq> outfall \<longrightarrow>
      (\<forall>a \<in> set [''outfall_statistics'', ''cumulative_inflow'', ''outfall_stage''].
         \<not> hasattr ?nd a)
      \<and> Outfall_outfall_stage h ?nd stage = Inl (AttributeError ''outfall_stage'')"
    using outfall_only_not_Node
    by (cases ?k) (simp_all add: hasattr_def Outfall_outfall_stage_def)
  have sto: "hasattr ?nd ''storage_statistics'' \<longleftrightarrow> ?k = storage"
    using storage_only_not_Node
    by (cases ?k) (simp_all add: hasattr_def Storage_names_def)
  from g t base out nout sto show ?thesis by blast
qed

theorem lookup_class_by_kind_witness:
  "fileLoaded (example_store (n_model example_nodes))
   \<and> Nodes_contains example_store example_nodes ''J0''
   \<and> getNodeType (example_store (n_model example_nodes)) ''J0'' = Inr outfall
   \<and> (\<exists>nd. Nodes_getitem example_store example_nodes ''J0'' = Inr nd
          \<and> hasattr nd ''outfall_stage'' \<and> hasattr nd ''cumulative_inflow''
          \<and> hasattr nd ''outfall_statistics'' \<and> hasattr nd ''invert_elevation''
          \<and> (\<exists>h'. Outfall_outfall_stage example_store nd 9 = Inr h'))
   \<and> Nodes_contains example_store example_nodes ''J1''
   \<and> getNodeType (example_store (n_model example_nodes)) ''J1'' = Inr junction
   \<and> (\<exists>nd. Nodes_getitem example_store example_nodes ''J1'' = Inr nd
          \<and> \<not> hasattr nd ''outfall_stage'' \<and> \<not> hasattr nd ''storage_statistics''
          \<and> hasattr nd ''invert_elevation''
          \<and> Outfall_outfall_stage example_store nd 9 = Inl (AttributeError ''outfall_stage''))
   \<and> Nodes_contains example_store example_nodes ''J3''
   \<and> getNodeType (example_store (n_model example_nodes)) ''J3'' = Inr storage
   \<and> (\<exists>nd. Nodes_getitem example_store example_nodes ''J3'' = Inr nd
          \<and> hasattr nd ''storage_statistics'' \<and> \<not> hasattr nd ''outfall_stage'')"
proof -
  have l: "fileLoaded (example_store (n_model example_nodes))"
    by (simp add: example_defs)
  have c: "Nodes_contains example_store example_nodes ''J0''"
    "Nodes_contains example_store example_nodes ''J1''"
    "Nodes_contains example_store example_nodes ''J3''"
    by (simp_all add: example_defs Nodes_contains_def ObjectIDexist_def)
  have k: "getNodeType (example_store (n_model example_nodes)) ''J0'' = Inr outfall"
    "getNodeType (example_store (n_model example_nodes)) ''J1'' = Inr junction"
    "getNodeType (example_store (n_model example_nodes)) ''J3'' = Inr storage"
    by (simp_all add: example_defs getNodeType_def)
  have m: "''invert_elevation'' \<in> set Node_names"
    by (simp add: Node_names_def)
  from lookup_class_by_kind [OF l c(1), of 9] k(1) m
  have a: "\<exists>nd. Nodes_getitem example_store example_nodes ''J0'' = Inr nd
          \<and> hasattr nd ''outfall_stage'' \<and> hasattr nd ''cumulative_inflow''
          \<and> hasattr nd ''outfall_statistics'' \<and> hasattr nd ''invert_elevation''
          \<and> (\<exists>h'. Outfall_outfall_stage example_store nd 9 = Inr h')"
    by auto
  from lookup_class_by_kind [OF l c(2), of 9] k(2) m
  have b: "\<exists>nd. Nodes_getitem example_store example_nodes ''J1'' = Inr nd
          \<and> \<not> hasattr nd ''outfall_stage'' \<and> \<not> hasattr nd ''storage_statistics''
          \<and> hasattr nd ''invert_elevation''
          \<and> Outfall_outfall_stage example_store nd 9 = Inl (AttributeError ''outfall_stage'')"
    by auto
  from lookup_class_by_kind [OF l c(3), of 9] k(3)
  have d: "\<exists>nd. Nodes_getitem example_store example_nodes ''J3'' = Inr nd
          \<and> hasattr nd ''storage_statistics'' \<and> \<not> hasattr nd ''outfall_stage''"
    by auto
  from l c k a b d show ?thesis by blast
qed

subsection \<open>Opening numbers\<close>

lemma Opening_init_counter:
  assumes "Opening_init c h nd t a l c1 c2 c3 = (r, c', h')"
  shows "c' = c + 1 \<and> (\<forall>op. r = Inr op \<longrightarrow> op_id op = c \<and> op_nodeid op = Node_nodeid nd)"
  using assms
  by (auto simp: Opening_init_def next_count_def Let_def split: sum.splits)

lemma create_openings_ids:
  assumes "create_openings c h reqs = (rs, c', h')"
  shows "length rs = length reqs \<and> c' = c + length reqs
     \<and> (\<forall>k < length rs. \<forall>op. rs ! k = Inr op \<longrightarrow> op_id op = c + k)"
  using assms
proof (induction reqs arbitrary: c h rs c' h')
  case Nil
  then show ?case by simp
next
  case (Cons q reqs)
  obtain nd a where q: "q = (nd, a)" by (cases q)
  obtain r c1 h1 where
    s: "Node_create_opening c h nd (o_type a) (o_area a) (o_length a)
           (o_coeff_orifice a) (o_coeff_freeweir a) (o_coeff_subweir a) = (r, c1, h1)"
    by (metis prod_cases3)
  obtain rs1 c2 h2 where t: "create_openings c1 h1 reqs = (rs1, c2, h2)"
    by (metis prod_cases3)
  from Cons.prems q s t have e: "rs = r # rs1" "c' = c2" by simp_all
  from s have c1: "c1 = c + 1" and r0: "\<forall>op. r = Inr op \<longrightarrow> op_id op = c"
    using Opening_init_counter [OF s [unfolded Node_create_opening_def]] by simp_all
  from Cons.IH [OF t] have ih: "length rs1 = length reqs" "c2 = c1 + length reqs"
    "\<forall>k < length rs1. \<forall>op. rs1 ! k = Inr op \<longrightarrow> op_id op = c1 + k" by simp_all
  have "\<forall>k < length rs. \<forall>op. rs ! k = Inr op \<longrightarrow> op_id op = c + k"
  proof (intro allI impI)
    fix k op assume k: "k < length rs" and o: "rs ! k = Inr op"
    show "op_id op = c + k"
    proof (cases k)
      case 0
      with o e r0 show ?thesis by simp
    next
      case (Suc j)
      with k o e ih c1 show ?thesis by simp
    qed
  qed
  with e ih c1 show ?case by simp
qed

text \<open>
  C5. A run of opening constructions that starts with the counter at \<open>c\<close> gives the
  k-th construction the number \<open>c + k\<close>, on whatever node it is made: the numbers of
  the openings built are strictly increasing, so no two are equal, and the counter
  ends \<open>length reqs\<close> higher. The process starts with \<open>c = itertools_count = 0\<close>, so
  the numbers are 0, 1, 2, ...; two openings on one node and a third on another get
  0, 1 and 2.
\<close>

theorem opening_numbers_increase:
  "length (fst (create_openings c h reqs)) = length reqs
   \<and> (\<forall>k < length reqs. \<forall>op.
         fst (create_openings c h reqs) ! k = Inr op \<longrightarrow> op_id op = c + k)
   \<and> (\<forall>j < length reqs. \<forall>k < length reqs. \<forall>a b.
         j < k \<and> fst (create_openings c h reqs) ! j = Inr a
               \<and> fst (create_openings c h reqs) ! k = Inr b \<longrightarrow> op_id a < op_id b)
   \<and> fst (snd (create_openings c h reqs)) = c + length reqs"
proof -
  obtain rs c' h' where e: "create_openings c h reqs = (rs, c', h')"
    by (metis prod_cases3)
  from create_openings_ids [OF e] e show ?thesis by auto
qed

theorem opening_numbers_increase_witness:
  "fst (create_openings itertools_count example_store example_requests)
     = [Inr \<lparr>op_nodeid = ''J1'', op_model = 0, op_id = 0\<rparr>,
        Inr \<lparr>op_nodeid = ''J1'', op_model = 0, op_id = 1\<rparr>,
        Inr \<lparr>op_nodeid = ''J2'', op_model = 0, op_id = 2\<rparr>]
   \<and> 2 < length example_requests
   \<and> fst (create_openings itertools_count example_store example_requests) ! 2
       = Inr \<lparr>op_nodeid = ''J2'', op_model = 0, op_id = 2\<rparr>
   \<and> op_id \<lparr>op_nodeid = ''J2'', op_model = 0, op_id = 2\<rparr> = itertools_count + 2
   \<and> fst (snd (create_openings itertools_count example_store example_requests)) = 3"
proof -
  have ev: "fst (create_openings itertools_count example_store example_requests)
     = [Inr \<lparr>op_nodeid = ''J1'', op_model = 0, op_id = 0\<rparr>,
        Inr \<lparr>op_nodeid = ''J1'', op_model = 0, op_id = 1\<rparr>,
        Inr \<lparr>op_nodeid = ''J2'', op_model = 0, op_id = 2\<rparr>]"
    by (simp add: itertools_count_def Node_create_opening_def Opening_init_def next_count_def
        setNodeOpening_def example_defs Node_nodeid_def example_opening_def Let_def
        example_requests_def)
  have n: "length example_requests = 3" and z: "itertools_count = 0"
    by (simp_all add: example_requests_def itertools_count_def)
  from opening_numbers_increase [of itertools_count example_store example_requests] ev n z
  show ?thesis by simp
qed

subsection \<open>Iteration\<close>

lemma Nodes_next_exhausted:
  "nNodes it \<le> cuindex it \<Longrightarrow> Nodes_next h it = (Inl StopIteration, it)"
  by (simp add: Nodes_next_def)

lemma for_loop_exhausted:
  "nNodes it \<le> cuindex it \<Longrightarrow> for_loop hs it = Inr ([], it)"
  by (subst for_loop.simps) (simp add: Nodes_next_exhausted)

lemma Nodes_next_step:
  assumes "cuindex it < nNodes it" and "fileLoaded (h (n_model it))"
    and "cuindex it < length (object_ids (h (n_model it)) NODE)"
  shows "\<exists>nd. Nodes_next h it = (Inr nd, it\<lparr>cuindex := cuindex it + 1\<rparr>)
     \<and> getObjectId (h (n_model it)) NODE (cuindex it) = Inr (Node_nodeid nd)
     \<and> v_model nd = n_model it"
proof -
  let ?nid = "object_ids (h (n_model it)) NODE ! cuindex it"
  have n: "Nodes_nodeid h it = Inr ?nid"
    using assms(3) by (simp add: Nodes_nodeid_def getObjectId_def)
  have "Nodes_contains h it ?nid"
    using assms(3) by (simp add: Nodes_contains_def ObjectIDexist_def)
  from getitem_class [OF assms(2) this] n assms(1,3) show ?thesis
    by (simp add: Nodes_next_def Node_nodeid_def getObjectId_def)
qed

lemma for_loop_from:
  assumes "n = nNodes it - cuindex it"
    and "\<forall>j < n. fileLoaded (hs j (n_model it))
                 \<and> cuindex it + j < length (object_ids (hs j (n_model it)) NODE)"
  shows "\<exists>vs it'. for_loop hs it = Inr (vs, it') \<and> length vs = n
     \<and> (\<forall>j < n. getObjectId (hs j (n_model it)) NODE (cuindex it + j)
                   = Inr (Node_nodeid (vs ! j)))
     \<and> (\<forall>j < n. v_model (vs ! j) = n_model it)
     \<and> nNodes it' = nNodes it \<and> n_model it' = n_model it
     \<and> cuindex it' = cuindex it + n"
  using assms
proof (induction n arbitrary: it hs)
  case 0
  then have "for_loop hs it = Inr ([], it)"
    by (simp add: for_loop_exhausted)
  then show ?case by simp
next
  case (Suc n)
  let ?it1 = "it\<lparr>cuindex := cuindex it + 1\<rparr>"
  let ?hs1 = "\<lambda>k. hs (Suc k)"
  from Suc.prems have lt: "cuindex it < nNodes it" by simp
  have "0 < Suc n" by simp
  from Suc.prems(2) [rule_format, OF this] have h0: "fileLoaded (hs 0 (n_model it))"
    "cuindex it < length (object_ids (hs 0 (n_model it)) NODE)" by simp_all
  from Nodes_next_step [of it "hs 0", OF lt h0] obtain nd where
    s: "Nodes_next (hs 0) it = (Inr nd, ?it1)"
    and i: "getObjectId (hs 0 (n_model it)) NODE (cuindex it) = Inr (Node_nodeid nd)"
    and m: "v_model nd = n_model it" by blast
  have a1: "n = nNodes ?it1 - cuindex ?it1" using Suc.prems(1) by simp
  have a2: "\<forall>j < n. fileLoaded (?hs1 j (n_model ?it1))
                 \<and> cuindex ?it1 + j < length (object_ids (?hs1 j (n_model ?it1)) NODE)"
  proof (intro allI impI)
    fix j assume "j < n"
    then have "Suc j < Suc n" by simp
    from Suc.prems(2) [rule_format, OF this]
    show "fileLoaded (?hs1 j (n_model ?it1))
        \<and> cuindex ?it1 + j < length (object_ids (?hs1 j (n_model ?it1)) NODE)"
      by simp
  qed
  from Suc.IH [of ?it1 ?hs1, OF a1 a2] obtain vs it' where
    r: "for_loop ?hs1 ?it1 = Inr (vs, it')" and l: "length vs = n"
    and ids: "\<forall>j < n. getObjectId (?hs1 j (n_model ?it1)) NODE (cuindex ?it1 + j)
                   = Inr (Node_nodeid (vs ! j))"
    and ms: "\<forall>j < n. v_model (vs ! j) = n_model ?it1"
    and k: "nNodes it' = nNodes ?it1" "n_model it' = n_model ?it1"
       "cuindex it' = cuindex ?it1 + n" by blast
  have f: "for_loop hs it = Inr (nd # vs, it')"
    using s r by (subst for_loop.simps) simp
  have ids': "\<forall>j < Suc n. getObjectId (hs j (n_model it)) NODE (cuindex it + j)
                   = Inr (Node_nodeid ((nd # vs) ! j))"
  proof (intro allI impI)
    fix j assume "j < Suc n"
    then show "getObjectId (hs j (n_model it)) NODE (cuindex it + j)
                   = Inr (Node_nodeid ((nd # vs) ! j))"
      using i ids by (cases j) simp_all
  qed
  have ms': "\<forall>j < Suc n. v_model ((nd # vs) ! j) = n_model it"
  proof (intro allI impI)
    fix j assume "j < Suc n"
    then show "v_model ((nd # vs) ! j) = n_model it"
      using m ms by (cases j) simp_all
  qed
  from f l ids' ms' k show ?case by simp
qed

text \<open>
  C3. A loop over a freshly built collection, on an engine that held N nodes when the
  collection was built, yields exactly N views and then ends with the cursor at N.
  The i-th view carries the identifier the engine gives for index i at the moment
  of the i-th step: \<open>hs i\<close> is the store at that step, which need not be the store
  the collection was built on. The loop runs through as long as, at each step, the
  engine is loaded and still has the index asked for; with an engine that does not
  change this holds by construction.
\<close>

theorem iteration_in_index_order:
  assumes "Nodes_init h0 model = Inr ns"
    and "\<forall>i < getProjectSize (h0 model) NODE.
           fileLoaded (hs i model) \<and> i < getProjectSize (hs i model) NODE"
  shows "\<exists>vs it'. for_loop hs (Nodes_iter ns) = Inr (vs, it')
     \<and> length vs = getProjectSize (h0 model) NODE
     \<and> (\<forall>i < length vs. getObjectId (hs i model) NODE i = Inr (Node_nodeid (vs ! i)))
     \<and> cuindex it' = nNodes it'"
proof -
  from assms(1) have ns: "ns = \<lparr>n_model = model, cuindex = 0,
      nNodes = getProjectSize (h0 model) NODE\<rparr>"
    by (simp add: Nodes_init_def split: if_splits)
  let ?n = "getProjectSize (h0 model) NODE"
  have a1: "?n = nNodes ns - cuindex ns" by (simp add: ns)
  have a2: "\<forall>j < ?n. fileLoaded (hs j (n_model ns))
                 \<and> cuindex ns + j < length (object_ids (hs j (n_model ns)) NODE)"
    using assms(2) by (simp add: ns getProjectSize_def)
  from for_loop_from [of "getProjectSize (h0 model) NODE" ns hs, OF a1 a2] show ?thesis
    by (auto simp: ns Nodes_iter_def)
qed


theorem iteration_in_index_order_witness:
  "Nodes_init example_store 0 = Inr example_nodes
   \<and> getProjectSize (example_store 0) NODE = 4
   \<and> fileLoaded (example_store 0) \<and> 0 < getProjectSize (example_store 0) NODE
   \<and> fileLoaded (changed_store 0) \<and> 3 < getProjectSize (changed_store 0) NODE
   \<and> (\<exists>vs it'. for_loop (\<lambda>i. if i = 0 then example_store else changed_store)
                    (Nodes_iter example_nodes) = Inr (vs, it')
          \<and> length vs = 4
          \<and> Node_nodeid (vs ! 0) = ''J0'' \<and> Node_nodeid (vs ! 1) = ''K1''
          \<and> Node_nodeid (vs ! 2) = ''J2'' \<and> Node_nodeid (vs ! 3) = ''J3''
          \<and> cuindex it' = nNodes it')"
proof -
  let ?hs = "\<lambda>i::nat. if i = 0 then example_store else changed_store"
  have i: "Nodes_init example_store 0 = Inr example_nodes"
    by (simp add: Nodes_init_def example_defs getProjectSize_def)
  have n: "getProjectSize (example_store 0) NODE = 4"
    by (simp add: example_defs getProjectSize_def)
  have a: "\<forall>i < getProjectSize (example_store 0) NODE.
         fileLoaded (?hs i 0) \<and> i < getProjectSize (?hs i 0) NODE"
    by (simp add: example_defs getProjectSize_def)
  have g: "getObjectId (?hs 0 0) NODE 0 = Inr ''J0''" "getObjectId (?hs 1 0) NODE 1 = Inr ''K1''"
    "getObjectId (?hs 2 0) NODE 2 = Inr ''J2''" "getObjectId (?hs 3 0) NODE 3 = Inr ''J3''"
    by (simp_all add: example_defs getObjectId_def)
  from iteration_in_index_order [of example_store 0 example_nodes ?hs, OF i a]
  obtain vs it' where f: "for_loop ?hs (Nodes_iter example_nodes) = Inr (vs, it')"
    and l: "length vs = 4"
    and d: "\<forall>i < length vs. getObjectId (?hs i 0) NODE i = Inr (Node_nodeid (vs ! i))"
    and c: "cuindex it' = nNodes it'"
    using n by auto
  from d [rule_format, of 0] d [rule_format, of 1] d [rule_format, of 2]
    d [rule_format, of 3] l g
  have "Node_nodeid (vs ! 0) = ''J0''" "Node_nodeid (vs ! 1) = ''K1''"
    "Node_nodeid (vs ! 2) = ''J2''" "Node_nodeid (vs ! 3) = ''J3''"
    by simp_all
  with f l c have "\<exists>vs it'. for_loop ?hs (Nodes_iter example_nodes) = Inr (vs, it')
          \<and> length vs = 4
          \<and> Node_nodeid (vs ! 0) = ''J0'' \<and> Node_nodeid (vs ! 1) = ''K1''
          \<and> Node_nodeid (vs ! 2) = ''J2'' \<and> Node_nodeid (vs ! 3) = ''J3''
          \<and> cuindex it' = nNodes it'"
    by blast
  moreover have "fileLoaded (example_store 0)" "0 < getProjectSize (example_store 0) NODE"
    "fileLoaded (changed_store 0)" "3 < getProjectSize (changed_store 0) NODE"
    by (simp_all add: example_defs getProjectSize_def)
  ultimately show ?thesis using i n by blast
qed

lemma Nodes_next_frame:
  assumes "Nodes_next h it = (r, it')"
  shows "nNodes it' = nNodes it \<and> n_model it' = n_model it
     \<and> (isl r \<longrightarrow> it' = it)
     \<and> (\<not> isl r \<longrightarrow> cuindex it' = cuindex it + 1 \<and> cuindex it < nNodes it)"
proof (cases "cuindex it < nNodes it")
  case False
  then have "Nodes_next h it = (Inl StopIteration, it)" by (simp add: Nodes_next_def)
  with assms show ?thesis by auto
next
  case lt: True
  show ?thesis
  proof (cases "Nodes_nodeid h it")
    case (Inl e)
    with lt have "Nodes_next h it = (Inl e, it)" by (simp add: Nodes_next_def)
    with assms show ?thesis by auto
  next
    case (Inr nid)
    note nid = this
    show ?thesis
    proof (cases "Nodes_getitem h it nid")
      case (Inl e)
      with lt nid have "Nodes_next h it = (Inl e, it)" by (simp add: Nodes_next_def)
      with assms show ?thesis by auto
    next
      case (Inr nd)
      with lt nid have "Nodes_next h it = (Inr nd, it\<lparr>cuindex := cuindex it + 1\<rparr>)"
        by (simp add: Nodes_next_def)
      with assms lt show ?thesis by auto
    qed
  qed
qed

lemma next_calls_count:
  assumes "next_calls hs it = (rs, it')" and "cuindex it \<le> nNodes it"
  shows "nNodes it' = nNodes it \<and> n_model it' = n_model it
     \<and> cuindex it' = cuindex it + length (filter (\<lambda>r. \<not> isl r) rs)
     \<and> cuindex it' \<le> nNodes it'"
  using assms
proof (induction hs arbitrary: it rs it')
  case Nil
  then show ?case by simp
next
  case (Cons h hs)
  obtain r it1 where s: "Nodes_next h it = (r, it1)" by (cases "Nodes_next h it")
  obtain rs1 it2 where t: "next_calls hs it1 = (rs1, it2)" by (cases "next_calls hs it1")
  from Cons.prems(1) s t have e: "rs = r # rs1" "it' = it2" by simp_all
  note fr = Nodes_next_frame [OF s]
  from fr Cons.prems(2) have b: "cuindex it1 \<le> nNodes it1"
    by (cases "isl r") auto
  from Cons.IH [OF t b] fr e show ?case
    by (cases "isl r") auto
qed

text \<open>
  C10. A collection is its own iterator: \<open>__iter__\<close> returns it unchanged and never
  resets the cursor. Whatever \<open>__next__\<close> calls are made on one instance, against
  whatever stores, the bound stays the node count read at construction, the views
  handed out are as many as the cursor has moved, and never more than that count;
  \<open>len\<close> may report another number meanwhile. Once the cursor has reached the bound,
  every further \<open>__next__\<close> raises \<open>StopIteration\<close> and every further loop over
  the instance ends at once with no views.
\<close>

theorem one_shot_iterator:
  assumes "Nodes_init h0 model = Inr ns"
    and "next_calls hs (Nodes_iter ns) = (rs, it)"
  shows "Nodes_iter ns = ns \<and> Nodes_iter it = it
     \<and> nNodes it = getProjectSize (h0 model) NODE
     \<and> length (filter (\<lambda>r. \<not> isl r) rs) = cuindex it
     \<and> cuindex it \<le> getProjectSize (h0 model) NODE
     \<and> (cuindex it = nNodes it \<longrightarrow>
          (\<forall>h. Nodes_next h it = (Inl StopIteration, it))
          \<and> (\<forall>hs'. for_loop hs' (Nodes_iter it) = Inr ([], it)))"
proof -
  from assms(1) have ns: "ns = \<lparr>n_model = model, cuindex = 0,
      nNodes = getProjectSize (h0 model) NODE\<rparr>"
    by (simp add: Nodes_init_def split: if_splits)
  from assms(2) have c: "next_calls hs ns = (rs, it)" by (simp add: Nodes_iter_def)
  have "cuindex ns \<le> nNodes ns" by (simp add: ns)
  from next_calls_count [OF c this] have k: "nNodes it = getProjectSize (h0 model) NODE"
    "cuindex it = length (filter (\<lambda>r. \<not> isl r) rs)" "cuindex it \<le> nNodes it"
    by (simp_all add: ns)
  have "cuindex it = nNodes it \<longrightarrow>
          (\<forall>h. Nodes_next h it = (Inl StopIteration, it))
          \<and> (\<forall>hs'. for_loop hs' (Nodes_iter it) = Inr ([], it))"
    by (simp add: Nodes_next_exhausted for_loop_exhausted Nodes_iter_def)
  with k show ?thesis by (simp add: Nodes_iter_def)
qed


theorem one_shot_iterator_witness:
  "Nodes_init example_store 0 = Inr example_nodes
   \<and> next_calls [changed_store, changed_store, changed_store,
                  changed_store, changed_store, changed_store] (Nodes_iter example_nodes)
       = ([Inr \<lparr>v_model = 0, v_nodeid = ''J0'', v_class = Outfall_class\<rparr>,
           Inr \<lparr>v_model = 0, v_nodeid = ''K1'', v_class = Node_class\<rparr>,
           Inr \<lparr>v_model = 0, v_nodeid = ''J2'', v_class = Node_class\<rparr>,
           Inr \<lparr>v_model = 0, v_nodeid = ''J3'', v_class = Storage_class\<rparr>,
           Inl StopIteration, Inl StopIteration],
          \<lparr>n_model = 0, cuindex = 4, nNodes = 4\<rparr>)
   \<and> Nodes_len changed_store \<lparr>n_model = 0, cuindex = 4, nNodes = 4\<rparr> = 5
   \<and> nNodes \<lparr>n_model = 0, cuindex = 4, nNodes = 4\<rparr> = getProjectSize (example_store 0) NODE
   \<and> cuindex \<lparr>n_model = 0, cuindex = 4, nNodes = 4\<rparr>
       = nNodes \<lparr>n_model = 0, cuindex = 4, nNodes = 4\<rparr>
   \<and> Nodes_next changed_store \<lparr>n_model = 0, cuindex = 4, nNodes = 4\<rparr>
       = (Inl StopIteration, \<lparr>n_model = 0, cuindex = 4, nNodes = 4\<rparr>)
   \<and> for_loop (\<lambda>k. changed_store) (Nodes_iter \<lparr>n_model = 0, cuindex = 4, nNodes = 4\<rparr>)
       = Inr ([], \<lparr>n_model = 0, cuindex = 4, nNodes = 4\<rparr>)"
proof -
  have i: "Nodes_init example_store 0 = Inr example_nodes"
    by (simp add: Nodes_init_def example_defs getProjectSize_def)
  have e: "next_calls [changed_store, changed_store, changed_store,
                  changed_store, changed_store, changed_store] (Nodes_iter example_nodes)
       = ([Inr \<lparr>v_model = 0, v_nodeid = ''J0'', v_class = Outfall_class\<rparr>,
           Inr \<lparr>v_model = 0, v_nodeid = ''K1'', v_class = Node_class\<rparr>,
           Inr \<lparr>v_model = 0, v_nodeid = ''J2'', v_class = Node_class\<rparr>,
           Inr \<lparr>v_model = 0, v_nodeid = ''J3'', v_class = Storage_class\<rparr>,
           Inl StopIteration, Inl StopIteration],
          \<lparr>n_model = 0, cuindex = 4, nNodes = 4\<rparr>)"
    by (simp add: Nodes_iter_def Nodes_next_def Nodes_nodeid_def Nodes_getitem_def
        Nodes_contains_def Node_init_def reclassify_def Node_is_outfall_def
        Node_is_storage_def engine_calls example_defs)
  have l: "Nodes_len changed_store \<lparr>n_model = 0, cuindex = 4, nNodes = 4\<rparr> = 5"
    by (simp add: Nodes_len_def getProjectSize_def example_defs)
  note t = one_shot_iterator [OF i e]
  from t have n: "nNodes \<lparr>n_model = 0, cuindex = 4, nNodes = 4\<rparr>
      = getProjectSize (example_store 0) NODE"
    by blast
  have x: "cuindex \<lparr>n_model = 0, cuindex = 4, nNodes = 4\<rparr>
      = nNodes \<lparr>n_model = 0, cuindex = 4, nNodes = 4\<rparr>"
    by simp
  from t x have nx: "Nodes_next changed_store \<lparr>n_model = 0, cuindex = 4, nNodes = 4\<rparr>
      = (Inl StopIteration, \<lparr>n_model = 0, cuindex = 4, nNodes = 4\<rparr>)"
    by blast
  from t x have fl:
    "for_loop (\<lambda>k. changed_store) (Nodes_iter \<lparr>n_model = 0, cuindex = 4, nNodes = 4\<rparr>)
      = Inr ([], \<lparr>n_model = 0, cuindex = 4, nNodes = 4\<rparr>)"
    by blast
  from i e l n x nx fl show ?thesis by (intro conjI)
qed

end
